theory Spec2Isabelle
  imports Complex_Main "HOL-Library.Word"
begin

unbundle bit_operations_syntax

section \<open>The frame-correlation handler: \<open>Mainloop::camera_callback\<close>\<close>

subsection \<open>Data\<close>

text \<open>
  \<open>struct timespec\<close> and \<open>struct timeval\<close> of the C library on the 64-bit target:
  both fields are \<open>long\<close>. The two records share the field name \<open>tv_sec\<close>; the one of
  \<open>timespec\<close> is written \<open>timespec.tv_sec\<close> below.
\<close>

record timespec =
  tv_sec :: "64 word"
  tv_nsec :: "64 word"

record timeval =
  tv_sec :: "64 word"
  tv_usec :: "64 word"

text \<open>
  Modelled from the spec: \<open>util.h\<close> is not among the sources; \<open>USEC_PER_SEC\<close> is the
  number of microseconds in a second, a 64-bit constant.
\<close>

definition USEC_PER_SEC :: "64 word" where
  "USEC_PER_SEC = 1000000"

text \<open>
  Floating-point values are carried around unchanged by the handler, never computed with
  or compared. They are opaque: \<open>'f\<close> stands for the values of \<open>float\<close>, \<open>'d\<close> for the
  values of \<open>double\<close> (infinities and NaN included).
\<close>

text \<open>\<open>Point3_<double> gyro_data\<close> together with \<open>struct timespec gyro_timespec\<close>.\<close>

record 'd gyro_sample =
  gyro_x :: 'd
  gyro_y :: 'd
  gyro_z :: 'd
  gyro_timespec :: timespec

text \<open>
  What \<open>calcFlow\<close> hands back: its \<open>int\<close> return value and the three reference
  parameters \<open>dt_us\<close> (an \<open>int\<close>), \<open>flow_x_ang\<close> and \<open>flow_y_ang\<close> (two \<open>float\<close>).
\<close>

record 'f flow_result =
  flow_quality :: "32 word"
  dt_us :: "32 word"
  flow_x_ang :: 'f
  flow_y_ang :: 'f

text \<open>
  Modelled from the spec: the TelemetryMessage. The struct \<open>mavlink_optical_flow_rad_t\<close> is
  declared in the MAVLink headers, which are not among the sources. Each field holds the
  value that lines 177 to 188 assign to it, at the type of the right-hand side: the 64-bit
  sum of line 177, the \<open>int\<close> of \<open>dt_us\<close> and \<open>flow_quality\<close>, the two \<open>float\<close> of the flow,
  the three \<open>double\<close> of the gyro sample, and the literals \<open>0\<close>, \<open>-1.0\<close>, \<open>0\<close>, \<open>0\<close>. A
  conversion to the declared type of a field is not part of this model.
\<close>

record ('f, 'd) mavlink_optical_flow_rad_t =
  time_usec :: "64 word"
  integration_time_us :: "32 word"
  integrated_x :: 'f
  integrated_y :: 'f
  integrated_xgyro :: 'd
  integrated_ygyro :: 'd
  integrated_zgyro :: 'd
  time_delta_distance_us :: "32 word"
  distance :: real
  temperature :: "32 word"
  sensor_id :: "32 word"
  quality :: "32 word"

text \<open>
  The external collaborators of the handler, as state transformers:
  \<^item> \<open>crop\<close>: the centred crop of the frame (\<open>frame_gray(crop)\<close>);
  \<^item> \<open>calcFlow\<close>: the flow estimator, called with the cropped image and the rebased
    timestamp, returning its result and its new internal state;
  \<^item> \<open>gyro_integrated_get\<close>: the inertial source, returning a sample and its new state.
\<close>

record ('i, 'e, 'b, 'f, 'd) collaborators =
  crop :: "'i \<Rightarrow> 'i"
  calcFlow :: "'e \<Rightarrow> 'i \<Rightarrow> 32 word \<Rightarrow> 'f flow_result \<times> 'e"
  gyro_integrated_get :: "'b \<Rightarrow> 'd gyro_sample \<times> 'b"

text \<open>
  The members of \<open>Mainloop\<close> the handler reads and writes, the states of the estimator
  (\<open>optical_flow\<close>) and of the inertial source (\<open>bmi\<close>), and the messages handed to
  \<open>optical_flow_rad_msg_write\<close> so far, oldest first (\<open>sent\<close>).
\<close>

record ('e, 'b, 'f, 'd) mainloop =
  camera_initial_timestamp :: "32 word"
  camera_prev_timestamp :: "32 word"
  gyro_last_timespec :: timespec
  optical_flow :: 'e
  bmi :: 'b
  sent :: "('f, 'd) mavlink_optical_flow_rad_t list"

text \<open>
  Modelled from the spec: \<open>mainloop.h\<close> is not among the sources; the session state
  starts with no first camera timestamp, no previous frame and a zero gyro timestamp.
\<close>

definition mainloop_init :: "'e \<Rightarrow> 'b \<Rightarrow> ('e, 'b, 'f, 'd) mainloop" where
  "mainloop_init e b =
     \<lparr>camera_initial_timestamp = 0, camera_prev_timestamp = 0,
      gyro_last_timespec = \<lparr>timespec.tv_sec = 0, tv_nsec = 0\<rparr>,
      optical_flow = e, bmi = b, sent = []\<rparr>"

subsection \<open>Timestamps\<close>

text \<open>
  \<open>timestamp->tv_usec + timestamp->tv_sec * USEC_PER_SEC\<close>, computed at 64 bits
  (line 177 stores it in the 64-bit \<open>time_usec\<close>).
\<close>

definition timestamp_us :: "timeval \<Rightarrow> 64 word" where
  "timestamp_us ts = tv_usec ts + tv_sec ts * USEC_PER_SEC"

text \<open>
  The raw timestamp of a frame in microseconds as a number, with no wrap-around; the
  fields of \<open>timeval\<close> are signed.
\<close>

definition raw_microseconds :: "timeval \<Rightarrow> int" where
  "raw_microseconds ts = sint (tv_usec ts) + sint (tv_sec ts) * 1000000"

text \<open>Line 131: the same value stored in \<open>uint32_t img_time_us\<close>.\<close>

definition img_time_us_raw :: "timeval \<Rightarrow> 32 word" where
  "img_time_us_raw ts = ucast (timestamp_us ts)"

text \<open>
  Lines 136 to 144: the pair of the new \<open>_camera_initial_timestamp\<close> and the rebased
  \<open>img_time_us\<close>.
\<close>

definition rebase :: "32 word \<Rightarrow> 32 word \<Rightarrow> 32 word \<times> 32 word" where
  "rebase initial img_time_us =
     (if initial \<noteq> 0 then (initial, img_time_us - initial) else (img_time_us, 0))"

subsection \<open>The handler\<close>

definition camera_callback ::
  "('i, 'e, 'b, 'f, 'd) collaborators \<Rightarrow> 'i \<Rightarrow> timeval \<Rightarrow> ('e, 'b, 'f, 'd) mainloop
     \<Rightarrow> ('e, 'b, 'f, 'd) mainloop" where
  "camera_callback C img timestamp s =
     (let cropped_image = crop C img;
          (initial, img_time_us) = rebase (camera_initial_timestamp s) (img_time_us_raw timestamp);
          (flow, e) = calcFlow C (optical_flow s) cropped_image img_time_us;
          (gyro_data, b) = gyro_integrated_get C (bmi s);
          s1 = s\<lparr>camera_initial_timestamp := initial, camera_prev_timestamp := img_time_us,
                 optical_flow := e, bmi := b\<rparr>
      in if timespec.tv_sec (gyro_last_timespec s) = timespec.tv_sec (gyro_timespec gyro_data)
            \<and> tv_nsec (gyro_last_timespec s) = tv_nsec (gyro_timespec gyro_data)
         then s1
         else let s2 = s1\<lparr>gyro_last_timespec := gyro_timespec gyro_data\<rparr>
              in if flow_quality flow <s 0 then s2
                 else s2\<lparr>sent := sent s2 @
                   [\<lparr>time_usec = timestamp_us timestamp,
                     integration_time_us = dt_us flow,
                     integrated_x = flow_x_ang flow,
                     integrated_y = flow_y_ang flow,
                     integrated_xgyro = gyro_x gyro_data,
                     integrated_ygyro = gyro_y gyro_data,
                     integrated_zgyro = gyro_z gyro_data,
                     time_delta_distance_us = 0,
                     distance = - 1,
                     temperature = 0,
                     sensor_id = 0,
                     quality = flow_quality flow\<rparr>]\<rparr>)"

text \<open>
  The handler run on a sequence of frames; besides the final state, the value of
  \<open>_camera_prev_timestamp\<close> after each frame (the frame's rebased timestamp).
\<close>

fun camera_frames ::
  "('i, 'e, 'b, 'f, 'd) collaborators \<Rightarrow> ('i \<times> timeval) list \<Rightarrow> ('e, 'b, 'f, 'd) mainloop
     \<Rightarrow> 32 word list \<times> ('e, 'b, 'f, 'd) mainloop" where
  "camera_frames C [] s = ([], s)"
| "camera_frames C ((img, timestamp) # frames) s =
     (let s' = camera_callback C img timestamp s;
          (ts, s'') = camera_frames C frames s'
      in (camera_prev_timestamp s' # ts, s''))"

text \<open>
  The flow result and the gyro sample one invocation of the handler obtains from its
  collaborators in state \<open>s\<close> (lines 146 and 157).
\<close>

definition frame_flow ::
  "('i, 'e, 'b, 'f, 'd) collaborators \<Rightarrow> 'i \<Rightarrow> timeval \<Rightarrow> ('e, 'b, 'f, 'd) mainloop
     \<Rightarrow> 'f flow_result" where
  "frame_flow C img timestamp s =
     fst (calcFlow C (optical_flow s) (crop C img)
       (snd (rebase (camera_initial_timestamp s) (img_time_us_raw timestamp))))"

definition frame_gyro ::
  "('i, 'e, 'b, 'f, 'd) collaborators \<Rightarrow> ('e, 'b, 'f, 'd) mainloop \<Rightarrow> 'd gyro_sample" where
  "frame_gyro C s = fst (gyro_integrated_get C (bmi s))"

text \<open>Strictly earlier, for two \<open>timespec\<close> values (both fields are signed).\<close>

definition timespec_less :: "timespec \<Rightarrow> timespec \<Rightarrow> bool" where
  "timespec_less a b \<longleftrightarrow>
     timespec.tv_sec a <s timespec.tv_sec b
     \<or> (timespec.tv_sec a = timespec.tv_sec b \<and> tv_nsec a <s tv_nsec b)"

subsection \<open>Collaborators for concrete runs\<close>

text \<open>
  An estimator that reports quality \<open>q\<close> and no motion for every frame and keeps, as its
  state, the timestamps it was called with; an inertial source whose state is a counter
  \<open>n\<close>: it reports the timestamp of \<open>n\<close> seconds and advances the counter by \<open>step\<close>
  (\<open>step = 0\<close> is a sensor that delivers nothing new). Images carry no information.
\<close>

definition test_collaborators ::
  "32 word \<Rightarrow> nat \<Rightarrow> (unit, 32 word list, nat, real, real) collaborators" where
  "test_collaborators q step =
     \<lparr>crop = (\<lambda>img. img),
      calcFlow = (\<lambda>e img t.
        (\<lparr>flow_quality = q, dt_us = 0, flow_x_ang = 0, flow_y_ang = 0\<rparr>, e @ [t])),
      gyro_integrated_get = (\<lambda>n. (\<lparr>gyro_x = 0, gyro_y = 0, gyro_z = 0,
         gyro_timespec = \<lparr>timespec.tv_sec = of_nat n, tv_nsec = 0\<rparr>\<rparr>, n + step))\<rparr>"

text \<open>The start of a session with that estimator and the inertial counter at \<open>n\<close>.\<close>

definition test_init :: "nat \<Rightarrow> (32 word list, nat, real, real) mainloop" where
  "test_init n = mainloop_init [] n"

definition frame_at :: "64 word \<Rightarrow> 64 word \<Rightarrow> unit \<times> timeval" where
  "frame_at sec usec = ((), \<lparr>tv_sec = sec, tv_usec = usec\<rparr>)"

section \<open>The event loop: \<open>Mainloop::loop\<close>\<close>

datatype collaborator = Camera | Mavlink_UDP | OpticalFlowOpenCV | BMI160

text \<open>\<open>struct pollfd\<close> and the event bits of \<open>poll.h\<close> on Linux.\<close>

record pollfd =
  fd :: int
  events :: "16 word"
  revents :: "16 word"

definition POLLIN :: "16 word" where "POLLIN = 0x001"
definition POLLPRI :: "16 word" where "POLLPRI = 0x002"
definition POLLOUT :: "16 word" where "POLLOUT = 0x004"

text \<open>Line 72: \<open>Pollable *pollables[] = { _camera, _bmi, _mavlink }\<close>.\<close>

definition pollables :: "collaborator list" where
  "pollables = [Camera, BMI160, Mavlink_UDP]"

text \<open>The handlers a wake-up invokes, in the order of invocation.\<close>

datatype handler = Handle_read collaborator | Handle_canwrite collaborator

text \<open>
  Lines 79 to 83: one descriptor for each Pollable. The member \<open>_fd\<close> of a Pollable is
  the function \<open>fd_of\<close>.
\<close>

definition loop_desc :: "(collaborator \<Rightarrow> int) \<Rightarrow> pollfd list" where
  "loop_desc fd_of = map (\<lambda>p. \<lparr>fd = fd_of p, events = POLLIN, revents = 0\<rparr>) pollables"

text \<open>
  Lines 92 to 102, the loop over \<open>j\<close>: the first Pollable with the handle of the
  descriptor is dispatched, and the search stops there.
\<close>

fun dispatch_desc :: "(collaborator \<Rightarrow> int) \<Rightarrow> pollfd \<Rightarrow> collaborator list \<Rightarrow> handler list" where
  "dispatch_desc fd_of d [] = []"
| "dispatch_desc fd_of d (p # ps) =
     (if fd d = fd_of p
      then (if revents d AND (POLLIN OR POLLPRI) \<noteq> 0 then [Handle_read p] else []) @
           (if revents d AND POLLOUT \<noteq> 0 then [Handle_canwrite p] else [])
      else dispatch_desc fd_of d ps)"

text \<open>
  Line 91, the loop over \<open>i\<close>: \<open>for (i = 0; ret && i < len; i++, ret--)\<close>. The second
  argument is \<open>ret\<close>, the third the descriptors from index \<open>i\<close> on.
\<close>

fun dispatch_ready :: "(collaborator \<Rightarrow> int) \<Rightarrow> int \<Rightarrow> pollfd list \<Rightarrow> handler list" where
  "dispatch_ready fd_of ret [] = []"
| "dispatch_ready fd_of ret (d # ds) =
     (if ret = 0 then []
      else dispatch_desc fd_of d pollables @ dispatch_ready fd_of (ret - 1) ds)"

text \<open>
  One pass of the \<open>while\<close> body, lines 86 to 103, given what \<open>poll\<close> returned: its
  return value \<open>ret\<close> and the \<open>revents\<close> it stored in the descriptors, in array order.
\<close>

definition loop_wake :: "(collaborator \<Rightarrow> int) \<Rightarrow> int \<Rightarrow> 16 word list \<Rightarrow> handler list" where
  "loop_wake fd_of ret revs =
     (if ret < 1 then []
      else dispatch_ready fd_of ret
             (map (\<lambda>(d, r). d\<lparr>revents := r\<rparr>) (zip (loop_desc fd_of) revs)))"

section \<open>Startup and teardown: \<open>Mainloop::run\<close>\<close>

text \<open>What \<open>run\<close> does to its collaborators, in order.\<close>

datatype action =
  New collaborator
  | Init collaborator
  | Callback_set
  | Calibrate
  | Start
  | Loop
  | Stop
  | Shutdown
  | Delete collaborator

text \<open>
  What the collaborators answer during startup: whether each \<open>new\<close> yields an object, and
  the status each \<open>init\<close> and \<open>start\<close> returns (zero is success).
\<close>

record startup =
  camera_new :: bool
  camera_init :: int
  mavlink_new :: bool
  mavlink_init :: int
  optical_flow_new :: bool
  bmi_new :: bool
  bmi_init :: int
  bmi_start :: int

text \<open>The cleanup labels at the end of \<open>run\<close>; each falls through to the next.\<close>

definition camera_init_error :: "action list" where
  "camera_init_error = [Delete Camera]"

definition mavlink_memory_error :: "action list" where
  "mavlink_memory_error = Shutdown # camera_init_error"

definition mavlink_init_error :: "action list" where
  "mavlink_init_error = Delete Mavlink_UDP # mavlink_memory_error"

definition optical_memory_error :: "action list" where
  "optical_memory_error = mavlink_init_error"

definition bmi_memory :: "action list" where
  "bmi_memory = Delete OpticalFlowOpenCV # optical_memory_error"

definition bmi_error :: "action list" where
  "bmi_error = Delete BMI160 # bmi_memory"

text \<open>
  \<open>run\<close>: the actions performed and the status returned. \<open>New c\<close> is recorded when the
  object was obtained. \<open>Loop\<close> stands for the call of \<open>loop()\<close>; the last branch
  describes a run whose loop has returned.
\<close>

definition run :: "startup \<Rightarrow> bool \<Rightarrow> action list \<times> int" where
  "run env calibrate_bmi =
     (if \<not> camera_new env then ([], - 1)
      else let t1 = [New Camera, Init Camera] in
      if camera_init env \<noteq> 0 then (t1 @ camera_init_error, - 1)
      else if \<not> mavlink_new env then (t1 @ mavlink_memory_error, - 1)
      else let t2 = t1 @ [New Mavlink_UDP, Init Mavlink_UDP] in
      if mavlink_init env \<noteq> 0 then (t2 @ mavlink_init_error, - 1)
      else if \<not> optical_flow_new env then (t2 @ optical_memory_error, - 1)
      else let t3 = t2 @ [New OpticalFlowOpenCV, Callback_set] in
      if \<not> bmi_new env then (t3 @ bmi_memory, - 1)
      else let t4 = t3 @ [New BMI160, Init BMI160] in
      if bmi_init env \<noteq> 0 then (t4 @ bmi_error, - 1)
      else let t5 = t4 @ (if calibrate_bmi then [Calibrate] else []) @ [Start] in
      if bmi_start env \<noteq> 0 then (t5 @ bmi_error, - 1)
      else (t5 @ [Loop, Stop, Delete BMI160, Delete OpticalFlowOpenCV, Delete Mavlink_UDP,
                  Shutdown, Delete Camera], 0))"

text \<open>The actions that release or shut down a collaborator, and the objects obtained.\<close>

fun is_teardown :: "action \<Rightarrow> bool" where
  "is_teardown (Delete c) = True"
| "is_teardown Shutdown = True"
| "is_teardown a = False"

fun constructed :: "action list \<Rightarrow> collaborator list" where
  "constructed [] = []"
| "constructed (New c # as) = c # constructed as"
| "constructed (a # as) = constructed as"

fun deleted :: "action list \<Rightarrow> collaborator list" where
  "deleted [] = []"
| "deleted (Delete c # as) = c # deleted as"
| "deleted (a # as) = deleted as"

section \<open>Properties of the timestamps\<close>

text \<open>The definitions a concrete run is evaluated with.\<close>

lemmas eval_defs = test_init_def mainloop_init_def frame_at_def img_time_us_raw_def timestamp_us_def
  USEC_PER_SEC_def test_collaborators_def camera_callback_def rebase_def Let_def
  frame_gyro_def frame_flow_def raw_microseconds_def

subsection \<open>The 32-bit raw timestamp\<close>

lemma uint_mod_sint:
  fixes a :: "64 word"
  shows "uint a mod 2 ^ 32 = sint a mod 2 ^ 32"
proof -
  have "uint a = sint a mod 2 ^ 64"
    by (simp add: uint_sint take_bit_eq_mod)
  moreover have "sint a mod 2 ^ 64 mod 2 ^ 32 = sint a mod 2 ^ 32"
    by (rule mod_mod_cancel) simp
  ultimately show ?thesis by simp
qed

lemma uint_img_time_us_raw:
  "uint (img_time_us_raw ts) = (sint (tv_usec ts) + sint (tv_sec ts) * 1000000) mod 2 ^ 32"
proof -
  have "uint (img_time_us_raw ts) = uint (timestamp_us ts) mod 2 ^ 32"
    by (simp add: img_time_us_raw_def unsigned_ucast_eq take_bit_eq_mod)
  also have "uint (timestamp_us ts) =
      (uint (tv_usec ts) + uint (tv_sec ts) * 1000000) mod 2 ^ 64"
    by (simp add: timestamp_us_def USEC_PER_SEC_def uint_word_ariths mod_simps)
  also have "\<dots> mod 2 ^ 32 = (uint (tv_usec ts) + uint (tv_sec ts) * 1000000) mod 2 ^ 32"
    by (rule mod_mod_cancel) simp
  also have "\<dots> = (sint (tv_usec ts) + sint (tv_sec ts) * 1000000) mod 2 ^ 32"
    by (intro mod_add_cong mod_mult_cong uint_mod_sint refl)
  finally show ?thesis .
qed

lemma raw_congruent:
  assumes "raw_microseconds ts' mod 2 ^ 32 = raw_microseconds ts mod 2 ^ 32"
  shows "img_time_us_raw ts' = img_time_us_raw ts"
proof -
  have "uint (img_time_us_raw ts') = uint (img_time_us_raw ts)"
    using assms by (simp add: uint_img_time_us_raw raw_microseconds_def)
  then show ?thesis by (simp add: word_uint_eq_iff)
qed

lemma rebased_window:
  assumes "raw_microseconds a \<le> raw_microseconds b"
    and "raw_microseconds b - raw_microseconds a < 2 ^ 32"
  shows "uint (img_time_us_raw b - img_time_us_raw a) = raw_microseconds b - raw_microseconds a"
proof -
  have "uint (img_time_us_raw b - img_time_us_raw a) =
      (raw_microseconds b mod 2 ^ 32 - raw_microseconds a mod 2 ^ 32) mod 2 ^ 32"
    by (simp add: uint_word_ariths uint_img_time_us_raw raw_microseconds_def)
  also have "\<dots> = (raw_microseconds b - raw_microseconds a) mod 2 ^ 32"
    by (simp add: mod_diff_eq)
  also have "\<dots> = raw_microseconds b - raw_microseconds a"
    using assms by simp
  finally show ?thesis .
qed

subsection \<open>What one invocation does to the state\<close>

lemma callback_initial:
  "camera_initial_timestamp (camera_callback C img timestamp s) =
     fst (rebase (camera_initial_timestamp s) (img_time_us_raw timestamp))"
  by (simp add: camera_callback_def Let_def case_prod_beta)

lemma callback_prev:
  "camera_prev_timestamp (camera_callback C img timestamp s) =
     snd (rebase (camera_initial_timestamp s) (img_time_us_raw timestamp))"
  by (simp add: camera_callback_def Let_def case_prod_beta)

lemma callback_bmi:
  "bmi (camera_callback C img timestamp s) = snd (gyro_integrated_get C (bmi s))"
  by (simp add: camera_callback_def Let_def case_prod_beta)

lemma callback_optical_flow:
  "optical_flow (camera_callback C img timestamp s) =
     snd (calcFlow C (optical_flow s) (crop C img)
       (snd (rebase (camera_initial_timestamp s) (img_time_us_raw timestamp))))"
  by (simp add: camera_callback_def Let_def case_prod_beta)

lemma callback_same_raw:
  assumes "img_time_us_raw ts' = img_time_us_raw ts"
  shows "(camera_callback C img ts' s)\<lparr>sent := []\<rparr> = (camera_callback C img ts s)\<lparr>sent := []\<rparr>"
    and "map (\<lambda>m. m\<lparr>time_usec := 0\<rparr>) (sent (camera_callback C img ts' s)) =
         map (\<lambda>m. m\<lparr>time_usec := 0\<rparr>) (sent (camera_callback C img ts s))"
  by (simp_all add: camera_callback_def Let_def case_prod_beta assms)

lemma timespec_less_differs:
  "timespec_less a b \<Longrightarrow>
   \<not> (timespec.tv_sec a = timespec.tv_sec b \<and> tv_nsec a = tv_nsec b)"
  by (auto simp: timespec_less_def word_sless_alt)

lemma callback_fresh:
  assumes "timespec_less (gyro_last_timespec s) (gyro_timespec (frame_gyro C s))"
    and "flow_quality (frame_flow C img timestamp s) = 0"
  shows "map time_usec (sent (camera_callback C img timestamp s)) =
           map time_usec (sent s) @ [timestamp_us timestamp]"
    and "gyro_last_timespec (camera_callback C img timestamp s) = gyro_timespec (frame_gyro C s)"
  using timespec_less_differs [OF assms(1)] assms(2)
  by (simp_all add: camera_callback_def frame_flow_def frame_gyro_def Let_def case_prod_beta
      word_sless_alt)

subsection \<open>Sequences of frames\<close>

lemma camera_frames_Cons:
  "camera_frames C (f # frames) s =
     (camera_prev_timestamp (camera_callback C (fst f) (snd f) s) #
        fst (camera_frames C frames (camera_callback C (fst f) (snd f) s)),
      snd (camera_frames C frames (camera_callback C (fst f) (snd f) s)))"
  by (cases f) (simp add: Let_def case_prod_beta)

lemma camera_frames_append:
  "camera_frames C (xs @ ys) s =
     (fst (camera_frames C xs s) @ fst (camera_frames C ys (snd (camera_frames C xs s))),
      snd (camera_frames C ys (snd (camera_frames C xs s))))"
  by (induction xs arbitrary: s) (simp_all add: camera_frames_Cons)

lemma camera_frames_origin_fixed:
  "camera_initial_timestamp s \<noteq> 0 \<Longrightarrow>
   fst (camera_frames C frames s) =
     map (\<lambda>g. img_time_us_raw (snd g) - camera_initial_timestamp s) frames \<and>
   camera_initial_timestamp (snd (camera_frames C frames s)) = camera_initial_timestamp s"
proof (induction frames arbitrary: s)
  case Nil
  then show ?case by simp
next
  case (Cons f frames)
  obtain img ts where f: "f = (img, ts)" by (cases f)
  let ?s' = "camera_callback C img ts s"
  have i: "camera_initial_timestamp ?s' = camera_initial_timestamp s"
    using Cons.prems by (simp add: callback_initial rebase_def)
  have p: "camera_prev_timestamp ?s' = img_time_us_raw ts - camera_initial_timestamp s"
    using Cons.prems by (simp add: callback_prev rebase_def)
  from Cons.IH [of ?s'] Cons.prems i p show ?case
    by (simp add: f Let_def case_prod_beta)
qed

lemma camera_frames_leading_zero:
  "camera_initial_timestamp s = 0 \<Longrightarrow> \<forall>f \<in> set zs. img_time_us_raw (snd f) = 0 \<Longrightarrow>
   fst (camera_frames C zs s) = replicate (length zs) 0 \<and>
   camera_initial_timestamp (snd (camera_frames C zs s)) = 0"
proof (induction zs arbitrary: s)
  case Nil
  then show ?case by simp
next
  case (Cons f zs)
  obtain img ts where f: "f = (img, ts)" by (cases f)
  let ?s' = "camera_callback C img ts s"
  have z: "img_time_us_raw ts = 0" using Cons.prems f by simp
  have i: "camera_initial_timestamp ?s' = 0"
    using Cons.prems z by (simp add: callback_initial rebase_def)
  have p: "camera_prev_timestamp ?s' = 0"
    using Cons.prems z by (simp add: callback_prev rebase_def)
  from Cons.IH [of ?s'] Cons.prems i p show ?case
    by (simp add: f Let_def case_prod_beta)
qed

lemma camera_frames_first_nonzero:
  assumes "camera_initial_timestamp s = 0" "img_time_us_raw (snd f) \<noteq> 0"
  shows "fst (camera_frames C (f # rest) s) =
           0 # map (\<lambda>g. img_time_us_raw (snd g) - img_time_us_raw (snd f)) rest \<and>
         camera_initial_timestamp (snd (camera_frames C (f # rest) s)) = img_time_us_raw (snd f)"
proof -
  obtain img ts where f: "f = (img, ts)" by (cases f)
  let ?s' = "camera_callback C img ts s"
  have i: "camera_initial_timestamp ?s' = img_time_us_raw ts"
    using assms by (simp add: callback_initial rebase_def)
  have p: "camera_prev_timestamp ?s' = 0"
    using assms by (simp add: callback_prev rebase_def)
  from camera_frames_origin_fixed [of ?s' C rest] assms i p f show ?thesis
    by (simp add: Let_def case_prod_beta)
qed

lemma sorted_uint:
  fixes ws :: "32 word list"
  shows "sorted (map uint ws) \<Longrightarrow> sorted ws"
  by (induction ws) (auto simp: word_le_def)

lemma sorted_shifted:
  fixes r :: int
  shows "sorted (map f xs) \<Longrightarrow> sorted (map (\<lambda>x. f x - r) xs)"
  by (induction xs) auto

lemma rebased_from_origin:
  assumes "sorted (map (\<lambda>g. raw_microseconds (snd g)) (f # rest))"
    and "\<forall>g \<in> set rest. raw_microseconds (snd g) - raw_microseconds (snd f) < 2 ^ 32"
  shows "map uint (map (\<lambda>g. img_time_us_raw (snd g) - img_time_us_raw (snd f)) rest) =
           map (\<lambda>g. raw_microseconds (snd g) - raw_microseconds (snd f)) rest"
    and "sorted (map (\<lambda>g. img_time_us_raw (snd g) - img_time_us_raw (snd f)) rest)"
proof -
  have "uint (img_time_us_raw (snd g) - img_time_us_raw (snd f)) =
      raw_microseconds (snd g) - raw_microseconds (snd f)" if "g \<in> set rest" for g
    using assms that by (intro rebased_window) auto
  then show e: "map uint (map (\<lambda>g. img_time_us_raw (snd g) - img_time_us_raw (snd f)) rest) =
           map (\<lambda>g. raw_microseconds (snd g) - raw_microseconds (snd f)) rest"
    by simp
  have "sorted (map (\<lambda>g. raw_microseconds (snd g) - raw_microseconds (snd f)) rest)"
    using assms(1) by (intro sorted_shifted) simp
  then have "sorted (map uint (map (\<lambda>g. img_time_us_raw (snd g) - img_time_us_raw (snd f)) rest))"
    by (simp only: e)
  then show "sorted (map (\<lambda>g. img_time_us_raw (snd g) - img_time_us_raw (snd f)) rest)"
    by (rule sorted_uint)
qed

lemma camera_frames_sorted_window:
  "camera_initial_timestamp s = 0 \<Longrightarrow>
   sorted (map (\<lambda>g. raw_microseconds (snd g)) frames) \<Longrightarrow>
   \<forall>g \<in> set frames. r0 \<le> raw_microseconds (snd g) \<and> raw_microseconds (snd g) - r0 < 2 ^ 32 \<Longrightarrow>
   sorted (fst (camera_frames C frames s))"
proof (induction frames arbitrary: s)
  case Nil
  then show ?case by simp
next
  case (Cons f frames)
  show ?case
  proof (cases "img_time_us_raw (snd f) = 0")
    case True
    let ?s' = "camera_callback C (fst f) (snd f) s"
    have i: "camera_initial_timestamp ?s' = 0"
      using Cons.prems True by (simp add: callback_initial rebase_def)
    have "sorted (fst (camera_frames C frames ?s'))"
      using Cons.IH [OF i] Cons.prems by simp
    moreover have "camera_prev_timestamp ?s' = 0"
      using Cons.prems True by (simp add: callback_prev rebase_def)
    ultimately show ?thesis by (simp add: camera_frames_Cons)
  next
    case False
    have w: "\<forall>g \<in> set frames. raw_microseconds (snd g) - raw_microseconds (snd f) < 2 ^ 32"
      using Cons.prems(3) by fastforce
    have "sorted (map (\<lambda>g. img_time_us_raw (snd g) - img_time_us_raw (snd f)) frames)"
      by (rule rebased_from_origin(2) [OF Cons.prems(2) w])
    then show ?thesis
      using camera_frames_first_nonzero [OF Cons.prems(1) False, of C frames] by simp
  qed
qed

section \<open>The claims\<close>

subsection \<open>Output of one frame\<close>

text \<open>
  Claim C4. Whenever the gyro sample the invocation obtains carries the timestamp last
  seen (seconds and nanoseconds both equal), the invocation hands no message to the
  telemetry sink, whatever the flow quality is. The handler has no error result: it
  returns the updated state.
\<close>

theorem stale_gyro_no_message:
  assumes "timespec.tv_sec (gyro_timespec (frame_gyro C s)) = timespec.tv_sec (gyro_last_timespec s)"
    and "tv_nsec (gyro_timespec (frame_gyro C s)) = tv_nsec (gyro_last_timespec s)"
  shows "sent (camera_callback C img timestamp s) = sent s"
  using assms by (simp add: camera_callback_def frame_gyro_def Let_def case_prod_beta)

text \<open>At the start of a session an inertial source that still reports the zero timestamp.\<close>

theorem stale_gyro_no_message_witness:
  "timespec.tv_sec (gyro_timespec (frame_gyro (test_collaborators 200 0) (test_init 0))) =
     timespec.tv_sec (gyro_last_timespec (test_init 0))
   \<and> tv_nsec (gyro_timespec (frame_gyro (test_collaborators 200 0) (test_init 0))) =
     tv_nsec (gyro_last_timespec (test_init 0))
   \<and> sent (camera_callback (test_collaborators 200 0) () \<lparr>tv_sec = 1, tv_usec = 0\<rparr> (test_init 0)) = []"
proof -
  have a: "timespec.tv_sec (gyro_timespec (frame_gyro (test_collaborators 200 0) (test_init 0))) =
     timespec.tv_sec (gyro_last_timespec (test_init 0))"
    by (simp add: frame_gyro_def test_collaborators_def test_init_def mainloop_init_def)
  have b: "tv_nsec (gyro_timespec (frame_gyro (test_collaborators 200 0) (test_init 0))) =
     tv_nsec (gyro_last_timespec (test_init 0))"
    by (simp add: frame_gyro_def test_collaborators_def test_init_def mainloop_init_def)
  have "sent (test_init 0) = []"
    by (simp add: test_init_def mainloop_init_def)
  with a b stale_gyro_no_message [OF a b, of "()" "\<lparr>tv_sec = 1, tv_usec = 0\<rparr>"] show ?thesis by simp
qed

text \<open>
  Claim C5. Whenever the estimator returns a negative quality for the frame, the
  invocation hands no message to the telemetry sink, whether the gyro sample is new or
  not; the handler returns the updated state.
\<close>

theorem negative_quality_no_message:
  assumes "flow_quality (frame_flow C img timestamp s) <s 0"
  shows "sent (camera_callback C img timestamp s) = sent s"
  using assms by (simp add: camera_callback_def frame_flow_def Let_def case_prod_beta)

text \<open>Quality \<open>-1\<close> on a frame with a new gyro sample.\<close>

theorem negative_quality_no_message_witness:
  "flow_quality (frame_flow (test_collaborators (- 1) 1) () \<lparr>tv_sec = 1, tv_usec = 0\<rparr> (test_init 1)) <s 0
   \<and> sent (camera_callback (test_collaborators (- 1) 1) () \<lparr>tv_sec = 1, tv_usec = 0\<rparr> (test_init 1)) = []"
proof -
  have a: "flow_quality (frame_flow (test_collaborators (- 1) 1) () \<lparr>tv_sec = 1, tv_usec = 0\<rparr> (test_init 1)) <s 0"
    by (simp add: frame_flow_def test_collaborators_def word_sless_alt)
  have "sent (test_init 1) = []"
    by (simp add: test_init_def mainloop_init_def)
  with a negative_quality_no_message [OF a] show ?thesis by simp
qed



text \<open>
  Claim C8. Every invocation leaves the frame's rebased timestamp in
  \<open>_camera_prev_timestamp\<close>, suppressed or not. The two checks do not interfere: the
  camera timestamps and the state of the estimator after the invocation are the same for
  every inertial source, inertial state and last-seen gyro timestamp; the last-seen gyro
  timestamp and the state of the inertial source after the invocation are the same for
  every estimator and estimator state.
\<close>

theorem prev_timestamp_and_independence:
  "camera_prev_timestamp (camera_callback C img timestamp s) =
     snd (rebase (camera_initial_timestamp s) (img_time_us_raw timestamp))
   \<and> camera_prev_timestamp (camera_callback (C\<lparr>gyro_integrated_get := G\<rparr>) img timestamp
        (s\<lparr>gyro_last_timespec := g, bmi := b\<rparr>)) =
       camera_prev_timestamp (camera_callback C img timestamp s)
   \<and> camera_initial_timestamp (camera_callback (C\<lparr>gyro_integrated_get := G\<rparr>) img timestamp
        (s\<lparr>gyro_last_timespec := g, bmi := b\<rparr>)) =
       camera_initial_timestamp (camera_callback C img timestamp s)
   \<and> optical_flow (camera_callback (C\<lparr>gyro_integrated_get := G\<rparr>) img timestamp
        (s\<lparr>gyro_last_timespec := g, bmi := b\<rparr>)) =
       optical_flow (camera_callback C img timestamp s)
   \<and> gyro_last_timespec (camera_callback (C\<lparr>calcFlow := F\<rparr>) img timestamp (s\<lparr>optical_flow := e\<rparr>)) =
       gyro_last_timespec (camera_callback C img timestamp s)
   \<and> bmi (camera_callback (C\<lparr>calcFlow := F\<rparr>) img timestamp (s\<lparr>optical_flow := e\<rparr>)) =
       bmi (camera_callback C img timestamp s)"
  by (simp add: camera_callback_def Let_def case_prod_beta)

subsection \<open>Rebasing\<close>

text \<open>
  Claim C9. Starting with no rebase origin, a run of leading frames whose 32-bit raw
  timestamp is zero is reported as \<open>0\<close> each and leaves the origin unset; the first frame
  with a nonzero raw timestamp is reported as \<open>0\<close> and becomes the origin of every later
  frame.
\<close>

theorem zero_timestamp_defers_origin:
  assumes "camera_initial_timestamp s = 0"
    and "\<forall>z \<in> set zs. img_time_us_raw (snd z) = 0"
    and "img_time_us_raw (snd f) \<noteq> 0"
  shows "fst (camera_frames C (zs @ f # rest) s) =
           replicate (length zs) 0 @ 0 #
             map (\<lambda>g. img_time_us_raw (snd g) - img_time_us_raw (snd f)) rest
         \<and> camera_initial_timestamp (snd (camera_frames C zs s)) = 0
         \<and> camera_initial_timestamp (snd (camera_frames C (zs @ f # rest) s)) =
             img_time_us_raw (snd f)"
proof -
  note z = camera_frames_leading_zero [OF assms(1,2), of C]
  note n = camera_frames_first_nonzero [OF conjunct2 [OF z] assms(3), of C rest]
  show ?thesis using z n by (simp add: camera_frames_append)
qed

text \<open>Raw timestamps 0, 5 and 7 microseconds: the origin is 5.\<close>

theorem zero_timestamp_defers_origin_witness:
  "camera_initial_timestamp (test_init 1) = 0
   \<and> img_time_us_raw (snd (frame_at 0 0)) = 0
   \<and> img_time_us_raw (snd (frame_at 0 5)) \<noteq> 0
   \<and> fst (camera_frames (test_collaborators 0 1) ([frame_at 0 0] @ frame_at 0 5 # [frame_at 0 7])
        (test_init 1)) = [0, 0, 2]
   \<and> camera_initial_timestamp (snd (camera_frames (test_collaborators 0 1)
        ([frame_at 0 0] @ frame_at 0 5 # [frame_at 0 7]) (test_init 1))) = 5"
proof -
  have a: "camera_initial_timestamp (test_init 1) = 0"
    by (simp add: test_init_def mainloop_init_def)
  have b: "\<forall>z \<in> set [frame_at 0 0]. img_time_us_raw (snd z) = 0"
    by (simp add: frame_at_def img_time_us_raw_def timestamp_us_def USEC_PER_SEC_def)
  have c: "img_time_us_raw (snd (frame_at 0 5)) \<noteq> 0"
    by (simp add: frame_at_def img_time_us_raw_def timestamp_us_def USEC_PER_SEC_def)
  have d: "img_time_us_raw (snd (frame_at 0 5)) = 5" "img_time_us_raw (snd (frame_at 0 7)) = 7"
    by (simp_all add: frame_at_def img_time_us_raw_def timestamp_us_def USEC_PER_SEC_def)
  show ?thesis
    using a b c zero_timestamp_defers_origin [OF a b c, of "test_collaborators 0 1" "[frame_at 0 7]"]
    by (simp add: d)
qed

text \<open>
  Claim C3, amended. With no rebase origin yet, the first frame's rebased timestamp is
  \<open>0\<close>. If the first frame's 32-bit raw timestamp is nonzero, every later frame's rebased
  timestamp is its raw timestamp minus the first one, modulo \<open>2^32\<close>. If the raw
  timestamps are non-decreasing and every frame comes less than \<open>2^32\<close> microseconds after
  the first, the rebased sequence is non-decreasing, and (after a nonzero first frame) the
  differences are exact.
\<close>

theorem rebased_sequence:
  assumes "camera_initial_timestamp s = 0"
  shows "hd (fst (camera_frames C (f # rest) s)) = 0
    \<and> (img_time_us_raw (snd f) \<noteq> 0 \<longrightarrow>
         tl (fst (camera_frames C (f # rest) s)) =
           map (\<lambda>g. img_time_us_raw (snd g) - img_time_us_raw (snd f)) rest)
    \<and> (sorted (map (\<lambda>g. raw_microseconds (snd g)) (f # rest))
         \<and> (\<forall>g \<in> set rest. raw_microseconds (snd g) - raw_microseconds (snd f) < 2 ^ 32)
       \<longrightarrow> sorted (fst (camera_frames C (f # rest) s))
         \<and> (img_time_us_raw (snd f) \<noteq> 0 \<longrightarrow>
              map uint (tl (fst (camera_frames C (f # rest) s))) =
                map (\<lambda>g. raw_microseconds (snd g) - raw_microseconds (snd f)) rest))"
proof (intro conjI impI)
  show "hd (fst (camera_frames C (f # rest) s)) = 0"
    using assms by (simp add: camera_frames_Cons callback_prev rebase_def)
next
  assume "img_time_us_raw (snd f) \<noteq> 0"
  then show "tl (fst (camera_frames C (f # rest) s)) =
      map (\<lambda>g. img_time_us_raw (snd g) - img_time_us_raw (snd f)) rest"
    using camera_frames_first_nonzero [OF assms, of f C rest] by simp
next
  assume h: "sorted (map (\<lambda>g. raw_microseconds (snd g)) (f # rest))
         \<and> (\<forall>g \<in> set rest. raw_microseconds (snd g) - raw_microseconds (snd f) < 2 ^ 32)"
  then have "\<forall>g \<in> set (f # rest). raw_microseconds (snd f) \<le> raw_microseconds (snd g)
      \<and> raw_microseconds (snd g) - raw_microseconds (snd f) < 2 ^ 32"
    by auto
  with h show "sorted (fst (camera_frames C (f # rest) s))"
    by (intro camera_frames_sorted_window [OF assms, where ?r0.0 = "raw_microseconds (snd f)"]) blast+
  assume n: "img_time_us_raw (snd f) \<noteq> 0"
  show "map uint (tl (fst (camera_frames C (f # rest) s))) =
      map (\<lambda>g. raw_microseconds (snd g) - raw_microseconds (snd f)) rest"
    using camera_frames_first_nonzero [OF assms n, of C rest]
      rebased_from_origin(1) [of f rest] h
    by simp
qed

text \<open>
  Frames at 5000 seconds, beyond \<open>2^32\<close> microseconds, 33 milliseconds apart.
\<close>

theorem rebased_sequence_witness:
  "camera_initial_timestamp (test_init 1) = 0
   \<and> img_time_us_raw (snd (frame_at 5000 0)) \<noteq> 0
   \<and> map (\<lambda>g. raw_microseconds (snd g)) [frame_at 5000 0, frame_at 5000 33000, frame_at 5000 66000] =
       [5000000000, 5000033000, 5000066000]
   \<and> fst (camera_frames (test_collaborators 0 1)
         [frame_at 5000 0, frame_at 5000 33000, frame_at 5000 66000] (test_init 1)) =
       [0, 33000, 66000]
   \<and> sorted (fst (camera_frames (test_collaborators 0 1)
         [frame_at 5000 0, frame_at 5000 33000, frame_at 5000 66000] (test_init 1)))"
proof -
  have a: "camera_initial_timestamp (test_init 1) = 0"
    by (simp add: test_init_def mainloop_init_def)
  have b: "img_time_us_raw (snd (frame_at 5000 0)) \<noteq> 0"
    by (simp add: frame_at_def img_time_us_raw_def timestamp_us_def USEC_PER_SEC_def)
  have v: "map (\<lambda>g. raw_microseconds (snd g)) [frame_at 5000 0, frame_at 5000 33000, frame_at 5000 66000] =
       [5000000000, 5000033000, 5000066000]"
    by (simp add: frame_at_def raw_microseconds_def)
  have c: "sorted (map (\<lambda>g. raw_microseconds (snd g)) (frame_at 5000 0 # [frame_at 5000 33000, frame_at 5000 66000]))"
    by (simp add: frame_at_def raw_microseconds_def)
  have d: "\<forall>g \<in> set [frame_at 5000 33000, frame_at 5000 66000].
         raw_microseconds (snd g) - raw_microseconds (snd (frame_at 5000 0)) < 2 ^ 32"
    by (simp add: frame_at_def raw_microseconds_def)
  have e: "map (\<lambda>g. img_time_us_raw (snd g) - img_time_us_raw (snd (frame_at 5000 0)))
      [frame_at 5000 33000, frame_at 5000 66000] = [33000, 66000]"
    by (simp add: frame_at_def img_time_us_raw_def timestamp_us_def USEC_PER_SEC_def)
  have l: "xs = [0, 33000, 66000]" if "hd xs = 0" "tl xs = [33000, 66000]" for xs :: "32 word list"
    using that by (cases xs) auto
  have "fst (camera_frames (test_collaborators 0 1)
         [frame_at 5000 0, frame_at 5000 33000, frame_at 5000 66000] (test_init 1)) = [0, 33000, 66000]
      \<and> sorted (fst (camera_frames (test_collaborators 0 1)
         [frame_at 5000 0, frame_at 5000 33000, frame_at 5000 66000] (test_init 1)))"
    using b c d e
      rebased_sequence [OF a, of "test_collaborators 0 1" "frame_at 5000 0"
        "[frame_at 5000 33000, frame_at 5000 66000]"]
    by (auto intro: l)
  with a b v show ?thesis by simp
qed

text \<open>
  Raw timestamps 0 and 5: the second frame is reported as \<open>0\<close>, not as \<open>5 - 0\<close>. Raw
  timestamps \<open>1\<close>, \<open>2^32\<close> and \<open>2^32 + 1\<close> are non-decreasing; their rebased timestamps
  \<open>0\<close>, \<open>2^32 - 1\<close>, \<open>0\<close> are not.
\<close>

theorem rebased_sequence_counterexample:
  "fst (camera_frames (test_collaborators 0 1) [frame_at 0 0, frame_at 0 5] (test_init 1)) ! 1
     \<noteq> img_time_us_raw (snd (frame_at 0 5)) - img_time_us_raw (snd (frame_at 0 0))
   \<and> sorted (map (\<lambda>g. raw_microseconds (snd g))
        [frame_at 0 1, frame_at 4294 967296, frame_at 4294 967297])
   \<and> \<not> sorted (fst (camera_frames (test_collaborators 0 1)
        [frame_at 0 1, frame_at 4294 967296, frame_at 4294 967297] (test_init 1)))"
  by (simp add: eval_defs)

text \<open>
  Claim C10, amended. The arithmetic on \<open>img_time_us\<close> (lines 131 to 144) is 32-bit: the
  raw timestamp is \<open>tv_usec + tv_sec * 1000000\<close> modulo \<open>2^32\<close>, and a rebased timestamp
  is the difference from the stored origin modulo \<open>2^32\<close>. Two frame timestamps that
  differ by a multiple of \<open>2^32\<close> microseconds have the same raw value, get the same flow
  result and leave the same state, but for the \<open>time_usec\<close> of a message emitted, which
  line 177 computes at 64 bits. Strictly increasing raw timestamps \<open>1\<close>, \<open>2^32 - 1\<close>,
  \<open>2^32 + 1\<close> rebase to \<open>0\<close>, \<open>2^32 - 2\<close>, \<open>0\<close>.
\<close>

theorem timestamps_modulo:
  "uint (img_time_us_raw ts) = raw_microseconds ts mod 2 ^ 32
   \<and> (camera_initial_timestamp s \<noteq> 0 \<longrightarrow>
        uint (camera_prev_timestamp (camera_callback C img ts s)) =
          (raw_microseconds ts - uint (camera_initial_timestamp s)) mod 2 ^ 32)
   \<and> (raw_microseconds ts' mod 2 ^ 32 = raw_microseconds ts mod 2 ^ 32 \<longrightarrow>
        img_time_us_raw ts' = img_time_us_raw ts
        \<and> frame_flow C img ts' s = frame_flow C img ts s
        \<and> (camera_callback C img ts' s)\<lparr>sent := []\<rparr> = (camera_callback C img ts s)\<lparr>sent := []\<rparr>
        \<and> map (\<lambda>m. m\<lparr>time_usec := 0\<rparr>) (sent (camera_callback C img ts' s)) =
            map (\<lambda>m. m\<lparr>time_usec := 0\<rparr>) (sent (camera_callback C img ts s)))
   \<and> raw_microseconds (snd (frame_at 0 1)) < raw_microseconds (snd (frame_at 4294 967295))
   \<and> raw_microseconds (snd (frame_at 4294 967295)) < raw_microseconds (snd (frame_at 4294 967297))
   \<and> fst (camera_frames (test_collaborators 0 1)
        [frame_at 0 1, frame_at 4294 967295, frame_at 4294 967297] (test_init 1)) =
        [0, 4294967294, 0]"
proof (intro conjI impI)
  show r: "uint (img_time_us_raw ts) = raw_microseconds ts mod 2 ^ 32"
    by (simp add: uint_img_time_us_raw raw_microseconds_def)
  show "uint (camera_prev_timestamp (camera_callback C img ts s)) =
          (raw_microseconds ts - uint (camera_initial_timestamp s)) mod 2 ^ 32"
    if "camera_initial_timestamp s \<noteq> 0"
  proof -
    have "uint (camera_prev_timestamp (camera_callback C img ts s)) =
        (uint (img_time_us_raw ts) - uint (camera_initial_timestamp s)) mod 2 ^ 32"
      using that by (simp add: callback_prev rebase_def uint_word_ariths)
    also have "\<dots> = (raw_microseconds ts - uint (camera_initial_timestamp s)) mod 2 ^ 32"
      by (simp add: r mod_simps)
    finally show ?thesis .
  qed
next
  assume "raw_microseconds ts' mod 2 ^ 32 = raw_microseconds ts mod 2 ^ 32"
  then have e: "img_time_us_raw ts' = img_time_us_raw ts"
    by (rule raw_congruent)
  then show "img_time_us_raw ts' = img_time_us_raw ts" .
  show "frame_flow C img ts' s = frame_flow C img ts s"
    by (simp add: frame_flow_def e)
  show "(camera_callback C img ts' s)\<lparr>sent := []\<rparr> = (camera_callback C img ts s)\<lparr>sent := []\<rparr>"
    by (rule callback_same_raw(1) [OF e])
  show "map (\<lambda>m. m\<lparr>time_usec := 0\<rparr>) (sent (camera_callback C img ts' s)) =
            map (\<lambda>m. m\<lparr>time_usec := 0\<rparr>) (sent (camera_callback C img ts s))"
    by (rule callback_same_raw(2) [OF e])
next
  show "raw_microseconds (snd (frame_at 0 1)) < raw_microseconds (snd (frame_at 4294 967295))"
    by (simp add: frame_at_def raw_microseconds_def)
  show "raw_microseconds (snd (frame_at 4294 967295)) < raw_microseconds (snd (frame_at 4294 967297))"
    by (simp add: frame_at_def raw_microseconds_def)
  show "fst (camera_frames (test_collaborators 0 1)
        [frame_at 0 1, frame_at 4294 967295, frame_at 4294 967297] (test_init 1)) =
        [0, 4294967294, 0]"
    by (simp add: eval_defs)
qed

text \<open>Origin 7; the timestamps of one second and of one second plus \<open>2^32\<close> microseconds.\<close>

theorem timestamps_modulo_witness:
  "camera_initial_timestamp ((test_init 1)\<lparr>camera_initial_timestamp := 7\<rparr>) \<noteq> 0
   \<and> raw_microseconds \<lparr>tv_sec = 4295, tv_usec = 967296\<rparr> mod 2 ^ 32 =
       raw_microseconds \<lparr>tv_sec = 1, tv_usec = 0\<rparr> mod 2 ^ 32
   \<and> img_time_us_raw \<lparr>tv_sec = 4295, tv_usec = 967296\<rparr> = img_time_us_raw \<lparr>tv_sec = 1, tv_usec = 0\<rparr>
   \<and> (camera_callback (test_collaborators 0 1) ()
        \<lparr>tv_sec = 4295, tv_usec = 967296\<rparr> ((test_init 1)\<lparr>camera_initial_timestamp := 7\<rparr>))
         \<lparr>sent := []\<rparr> =
       (camera_callback (test_collaborators 0 1) ()
        \<lparr>tv_sec = 1, tv_usec = 0\<rparr> ((test_init 1)\<lparr>camera_initial_timestamp := 7\<rparr>))
         \<lparr>sent := []\<rparr>
   \<and> uint (camera_prev_timestamp (camera_callback (test_collaborators 0 1) ()
        \<lparr>tv_sec = 1, tv_usec = 0\<rparr> ((test_init 1)\<lparr>camera_initial_timestamp := 7\<rparr>))) = 999993"
proof -
  have a: "camera_initial_timestamp ((test_init 1)\<lparr>camera_initial_timestamp := 7\<rparr>) \<noteq> 0"
    by simp
  have b: "raw_microseconds \<lparr>tv_sec = 4295, tv_usec = 967296\<rparr> mod 2 ^ 32 =
       raw_microseconds \<lparr>tv_sec = 1, tv_usec = 0\<rparr> mod 2 ^ 32"
    by (simp add: raw_microseconds_def)
  have c: "(raw_microseconds \<lparr>tv_sec = 1, tv_usec = 0\<rparr> - 7) mod 2 ^ 32 = 999993"
    by (simp add: raw_microseconds_def)
  show ?thesis
    using a b c
      timestamps_modulo [of "\<lparr>tv_sec = 1, tv_usec = 0\<rparr>" "(test_init 1)\<lparr>camera_initial_timestamp := 7\<rparr>"
        "test_collaborators 0 1" "()" "\<lparr>tv_sec = 4295, tv_usec = 967296\<rparr>"]
    by simp
qed

text \<open>
  The same two timestamps at the start of a session: the messages carry 4295967296 and
  1000000 in \<open>time_usec\<close>, so the two invocations do not leave the same state.
\<close>

theorem timestamps_modulo_counterexample:
  "raw_microseconds \<lparr>tv_sec = 4295, tv_usec = 967296\<rparr> =
     raw_microseconds \<lparr>tv_sec = 1, tv_usec = 0\<rparr> + 2 ^ 32
   \<and> map time_usec (sent (camera_callback (test_collaborators 0 1) ()
        \<lparr>tv_sec = 4295, tv_usec = 967296\<rparr> (test_init 1))) = [4295967296]
   \<and> map time_usec (sent (camera_callback (test_collaborators 0 1) ()
        \<lparr>tv_sec = 1, tv_usec = 0\<rparr> (test_init 1))) = [1000000]
   \<and> camera_callback (test_collaborators 0 1) () \<lparr>tv_sec = 4295, tv_usec = 967296\<rparr> (test_init 1)
       \<noteq> camera_callback (test_collaborators 0 1) () \<lparr>tv_sec = 1, tv_usec = 0\<rparr> (test_init 1)"
proof -
  have a: "map time_usec (sent (camera_callback (test_collaborators 0 1) ()
        \<lparr>tv_sec = 4295, tv_usec = 967296\<rparr> (test_init 1))) = [4295967296]"
    by (simp add: eval_defs)
  have b: "map time_usec (sent (camera_callback (test_collaborators 0 1) ()
        \<lparr>tv_sec = 1, tv_usec = 0\<rparr> (test_init 1))) = [1000000]"
    by (simp add: eval_defs)
  have c: "camera_callback (test_collaborators 0 1) () \<lparr>tv_sec = 4295, tv_usec = 967296\<rparr> (test_init 1)
       \<noteq> camera_callback (test_collaborators 0 1) () \<lparr>tv_sec = 1, tv_usec = 0\<rparr> (test_init 1)"
  proof
    assume "camera_callback (test_collaborators 0 1) () \<lparr>tv_sec = 4295, tv_usec = 967296\<rparr> (test_init 1)
       = camera_callback (test_collaborators 0 1) () \<lparr>tv_sec = 1, tv_usec = 0\<rparr> (test_init 1)"
    then have "[4295967296] = [1000000 :: 64 word]"
      by (simp only: a [symmetric] b [symmetric])
    then show False by simp
  qed
  have d: "raw_microseconds \<lparr>tv_sec = 4295, tv_usec = 967296\<rparr> =
     raw_microseconds \<lparr>tv_sec = 1, tv_usec = 0\<rparr> + 2 ^ 32"
    by (simp add: raw_microseconds_def)
  show ?thesis by (intro conjI a b c d)
qed

subsection \<open>The scenario of three frames\<close>

text \<open>
  Claim C1, amended. For the frames at 1000000, 1033000 and 1066000 microseconds, an
  estimator that always reports quality 0 and gyro timestamps that strictly increase
  (the first one later than the one last seen), exactly three messages are emitted.
  Their \<open>time_usec\<close> are the raw timestamps 1000000, 1033000 and 1066000; the rebased
  timestamps 0, 33000 and 66000 are what the estimator is called with and what
  \<open>_camera_prev_timestamp\<close> holds after each frame.
\<close>

theorem scenario_messages:
  assumes "camera_initial_timestamp s = 0" and "sent s = []"
    and "\<forall>e img t. flow_quality (fst (calcFlow C e img t)) = 0"
    and "s1 = camera_callback C i1 \<lparr>tv_sec = 1, tv_usec = 0\<rparr> s"
    and "s2 = camera_callback C i2 \<lparr>tv_sec = 1, tv_usec = 33000\<rparr> s1"
    and "s3 = camera_callback C i3 \<lparr>tv_sec = 1, tv_usec = 66000\<rparr> s2"
    and "timespec_less (gyro_last_timespec s) (gyro_timespec (frame_gyro C s))"
    and "timespec_less (gyro_timespec (frame_gyro C s)) (gyro_timespec (frame_gyro C s1))"
    and "timespec_less (gyro_timespec (frame_gyro C s1)) (gyro_timespec (frame_gyro C s2))"
  shows "map time_usec (sent s3) = [1000000, 1033000, 1066000]
    \<and> [camera_prev_timestamp s1, camera_prev_timestamp s2, camera_prev_timestamp s3] =
        [0, 33000, 66000]
    \<and> optical_flow s1 = snd (calcFlow C (optical_flow s) (crop C i1) 0)
    \<and> optical_flow s2 = snd (calcFlow C (optical_flow s1) (crop C i2) 33000)
    \<and> optical_flow s3 = snd (calcFlow C (optical_flow s2) (crop C i3) 66000)"
proof -
  have q: "flow_quality (frame_flow C img t x) = 0" for img t x
    using assms(3) by (simp add: frame_flow_def)
  have t: "timestamp_us \<lparr>tv_sec = 1, tv_usec = 0\<rparr> = 1000000"
    "timestamp_us \<lparr>tv_sec = 1, tv_usec = 33000\<rparr> = 1033000"
    "timestamp_us \<lparr>tv_sec = 1, tv_usec = 66000\<rparr> = 1066000"
    by (simp_all add: timestamp_us_def USEC_PER_SEC_def)
  have r: "img_time_us_raw \<lparr>tv_sec = 1, tv_usec = 0\<rparr> = 1000000"
    "img_time_us_raw \<lparr>tv_sec = 1, tv_usec = 33000\<rparr> = 1033000"
    "img_time_us_raw \<lparr>tv_sec = 1, tv_usec = 66000\<rparr> = 1066000"
    by (simp_all add: img_time_us_raw_def t)
  have m1: "map time_usec (sent s1) = [1000000]"
    and g1: "gyro_last_timespec s1 = gyro_timespec (frame_gyro C s)"
    using callback_fresh [OF assms(7) q, of i1 "\<lparr>tv_sec = 1, tv_usec = 0\<rparr>"] assms(2,4)
    by (simp_all add: t)
  have m2: "map time_usec (sent s2) = [1000000, 1033000]"
    and g2: "gyro_last_timespec s2 = gyro_timespec (frame_gyro C s1)"
    using callback_fresh [of s1 C i2 "\<lparr>tv_sec = 1, tv_usec = 33000\<rparr>"] assms(5,8) q m1 g1
    by (simp_all add: t)
  have m3: "map time_usec (sent s3) = [1000000, 1033000, 1066000]"
    using callback_fresh [of s2 C i3 "\<lparr>tv_sec = 1, tv_usec = 66000\<rparr>"] assms(6,9) q m2 g2
    by (simp_all add: t)
  have i1: "camera_initial_timestamp s1 = 1000000" and p1: "camera_prev_timestamp s1 = 0"
    using assms(1,4) by (simp_all add: callback_initial callback_prev rebase_def r)
  have i2: "camera_initial_timestamp s2 = 1000000" and p2: "camera_prev_timestamp s2 = 33000"
    using assms(5) i1 by (simp_all add: callback_initial callback_prev rebase_def r)
  have p3: "camera_prev_timestamp s3 = 66000"
    using assms(6) i2 by (simp_all add: callback_initial callback_prev rebase_def r)
  have e1: "optical_flow s1 = snd (calcFlow C (optical_flow s) (crop C i1) 0)"
    using assms(1,4) by (simp add: callback_optical_flow rebase_def)
  have e2: "optical_flow s2 = snd (calcFlow C (optical_flow s1) (crop C i2) 33000)"
    using assms(5) i1 by (simp add: callback_optical_flow rebase_def r)
  have e3: "optical_flow s3 = snd (calcFlow C (optical_flow s2) (crop C i3) 66000)"
    using assms(6) i2 by (simp add: callback_optical_flow rebase_def r)
  show ?thesis using m3 p1 p2 p3 e1 e2 e3 by simp
qed

text \<open>
  The scenario with an inertial source that reports second 1, 2 and 3 and an estimator that
  records the timestamps it is called with.
\<close>

theorem scenario_messages_witness:
  "camera_initial_timestamp (test_init 1) = 0
   \<and> sent (test_init 1) = []
   \<and> (\<forall>e img t. flow_quality (fst (calcFlow (test_collaborators 0 1) e img t)) = 0)
   \<and> map time_usec (sent
        (camera_callback (test_collaborators 0 1) () \<lparr>tv_sec = 1, tv_usec = 66000\<rparr>
          (camera_callback (test_collaborators 0 1) () \<lparr>tv_sec = 1, tv_usec = 33000\<rparr>
            (camera_callback (test_collaborators 0 1) () \<lparr>tv_sec = 1, tv_usec = 0\<rparr>
              (test_init 1))))) = [1000000, 1033000, 1066000]
   \<and> optical_flow
        (camera_callback (test_collaborators 0 1) () \<lparr>tv_sec = 1, tv_usec = 66000\<rparr>
          (camera_callback (test_collaborators 0 1) () \<lparr>tv_sec = 1, tv_usec = 33000\<rparr>
            (camera_callback (test_collaborators 0 1) () \<lparr>tv_sec = 1, tv_usec = 0\<rparr>
              (test_init 1)))) = [0, 33000, 66000]"
proof -
  let ?C = "test_collaborators 0 1"
  let ?s = "test_init 1"
  let ?s1 = "camera_callback ?C () \<lparr>tv_sec = 1, tv_usec = 0\<rparr> ?s"
  let ?s2 = "camera_callback ?C () \<lparr>tv_sec = 1, tv_usec = 33000\<rparr> ?s1"
  let ?s3 = "camera_callback ?C () \<lparr>tv_sec = 1, tv_usec = 66000\<rparr> ?s2"
  have a: "camera_initial_timestamp ?s = 0" and b: "sent ?s = []"
    by (simp_all add: test_init_def mainloop_init_def)
  have c: "\<forall>e img t. flow_quality (fst (calcFlow ?C e img t)) = 0"
    by (simp add: test_collaborators_def)
  have b1: "bmi ?s1 = 2"
    by (simp add: callback_bmi test_collaborators_def test_init_def mainloop_init_def)
  have b2: "bmi ?s2 = 3"
    unfolding callback_bmi [of _ _ _ ?s1] b1 by (simp add: test_collaborators_def)
  have g0: "timespec_less (gyro_last_timespec ?s) (gyro_timespec (frame_gyro ?C ?s))"
    by (simp add: eval_defs timespec_less_def word_sless_alt)
  have g1: "timespec_less (gyro_timespec (frame_gyro ?C ?s)) (gyro_timespec (frame_gyro ?C ?s1))"
    unfolding frame_gyro_def b1
    by (simp add: test_init_def mainloop_init_def test_collaborators_def timespec_less_def word_sless_alt)
  have g2: "timespec_less (gyro_timespec (frame_gyro ?C ?s1)) (gyro_timespec (frame_gyro ?C ?s2))"
    unfolding frame_gyro_def b1 b2
    by (simp add: test_collaborators_def timespec_less_def word_sless_alt)
  have o: "optical_flow ?s = []"
    by (simp add: test_init_def mainloop_init_def)
  have f: "snd (calcFlow ?C e img t) = e @ [t]" for e img t
    by (simp add: test_collaborators_def)
  note sm = scenario_messages [OF a b c refl refl refl g0 g1 g2]
  have m: "map time_usec (sent ?s3) = [1000000, 1033000, 1066000]"
    by (rule sm [THEN conjunct1])
  have e1: "optical_flow ?s1 = snd (calcFlow ?C (optical_flow ?s) (crop ?C ()) 0)"
    by (rule sm [THEN conjunct2, THEN conjunct2, THEN conjunct1])
  have e2: "optical_flow ?s2 = snd (calcFlow ?C (optical_flow ?s1) (crop ?C ()) 33000)"
    by (rule sm [THEN conjunct2, THEN conjunct2, THEN conjunct2, THEN conjunct1])
  have e3: "optical_flow ?s3 = snd (calcFlow ?C (optical_flow ?s2) (crop ?C ()) 66000)"
    by (rule sm [THEN conjunct2, THEN conjunct2, THEN conjunct2, THEN conjunct2])
  have o1: "optical_flow ?s1 = [0]"
    by (simp only: e1 o f append.simps)
  have o2: "optical_flow ?s2 = [0, 33000]"
    by (simp only: e2 o1 f append.simps)
  have o3: "optical_flow ?s3 = [0, 33000, 66000]"
    by (simp only: e3 o2 f append.simps)
  show ?thesis by (intro conjI a b c m o3)
qed

text \<open>
  In that run the estimator has seen the rebased timestamps, and the messages do not carry
  them.
\<close>

theorem scenario_time_usec_counterexample:
  "optical_flow (snd (camera_frames (test_collaborators 0 1)
      [frame_at 1 0, frame_at 1 33000, frame_at 1 66000] (test_init 1))) = [0, 33000, 66000]
   \<and> map time_usec (sent (snd (camera_frames (test_collaborators 0 1)
      [frame_at 1 0, frame_at 1 33000, frame_at 1 66000] (test_init 1)))) =
     [1000000, 1033000, 1066000]
   \<and> map time_usec (sent (snd (camera_frames (test_collaborators 0 1)
      [frame_at 1 0, frame_at 1 33000, frame_at 1 66000] (test_init 1)))) \<noteq>
     [0, 33000, 66000]"
  by (simp add: eval_defs)

section \<open>Claims on startup and on the event loop\<close>

text \<open>
  Claim C7. If camera, telemetry transport, flow estimator and inertial source were
  obtained and the camera and the transport initialised, and \<open>init\<close> or \<open>start\<close> of the
  inertial source fails, then \<open>run\<close> returns \<open>-1\<close> without entering the loop, after
  deleting the inertial source, the flow estimator and the transport, shutting the camera
  down and deleting it: each exactly once, in the reverse order of construction.
\<close>

theorem bmi_failure_teardown:
  assumes "camera_new env" and "camera_init env = 0"
    and "mavlink_new env" and "mavlink_init env = 0"
    and "optical_flow_new env" and "bmi_new env"
    and "bmi_init env \<noteq> 0 \<or> bmi_start env \<noteq> 0"
  shows "snd (run env calibrate_bmi) = - 1
    \<and> filter is_teardown (fst (run env calibrate_bmi)) =
        [Delete BMI160, Delete OpticalFlowOpenCV, Delete Mavlink_UDP, Shutdown, Delete Camera]
    \<and> deleted (fst (run env calibrate_bmi)) = rev (constructed (fst (run env calibrate_bmi)))
    \<and> count_list (fst (run env calibrate_bmi)) (Delete OpticalFlowOpenCV) = 1
    \<and> count_list (fst (run env calibrate_bmi)) (Delete Mavlink_UDP) = 1
    \<and> count_list (fst (run env calibrate_bmi)) Shutdown = 1
    \<and> count_list (fst (run env calibrate_bmi)) (Delete Camera) = 1
    \<and> Loop \<notin> set (fst (run env calibrate_bmi))
    \<and> (\<exists>startup. fst (run env calibrate_bmi) = startup @
          [Delete BMI160, Delete OpticalFlowOpenCV, Delete Mavlink_UDP, Shutdown, Delete Camera])"
  using assms
  by (auto simp: run_def Let_def bmi_error_def bmi_memory_def optical_memory_error_def
      mavlink_init_error_def mavlink_memory_error_def camera_init_error_def)

text \<open>The inertial source fails to initialise.\<close>

theorem bmi_failure_teardown_witness:
  "run \<lparr>camera_new = True, camera_init = 0, mavlink_new = True, mavlink_init = 0,
        optical_flow_new = True, bmi_new = True, bmi_init = - 1, bmi_start = 0\<rparr> False =
     ([New Camera, Init Camera, New Mavlink_UDP, Init Mavlink_UDP, New OpticalFlowOpenCV,
       Callback_set, New BMI160, Init BMI160,
       Delete BMI160, Delete OpticalFlowOpenCV, Delete Mavlink_UDP, Shutdown, Delete Camera], - 1)
   \<and> filter is_teardown (fst (run \<lparr>camera_new = True, camera_init = 0, mavlink_new = True,
        mavlink_init = 0, optical_flow_new = True, bmi_new = True, bmi_init = - 1,
        bmi_start = 0\<rparr> False)) =
       [Delete BMI160, Delete OpticalFlowOpenCV, Delete Mavlink_UDP, Shutdown, Delete Camera]"
proof -
  let ?env = "\<lparr>camera_new = True, camera_init = 0, mavlink_new = True, mavlink_init = 0,
        optical_flow_new = True, bmi_new = True, bmi_init = - 1, bmi_start = 0\<rparr>"
  have r: "run ?env False =
     ([New Camera, Init Camera, New Mavlink_UDP, Init Mavlink_UDP, New OpticalFlowOpenCV,
       Callback_set, New BMI160, Init BMI160,
       Delete BMI160, Delete OpticalFlowOpenCV, Delete Mavlink_UDP, Shutdown, Delete Camera], - 1)"
    by (simp add: run_def Let_def bmi_error_def bmi_memory_def optical_memory_error_def
      mavlink_init_error_def mavlink_memory_error_def camera_init_error_def)
  have "filter is_teardown (fst (run ?env False)) =
       [Delete BMI160, Delete OpticalFlowOpenCV, Delete Mavlink_UDP, Shutdown, Delete Camera]"
    using bmi_failure_teardown [of ?env False] by simp
  with r show ?thesis by simp
qed

text \<open>
  Claim C2. The loop of line 91 counts \<open>ret\<close> down once for each descriptor it looks at,
  ready or not, so it looks at the first \<open>ret\<close> descriptors only. When \<open>poll\<close> reports one
  ready descriptor and it is the inertial sensor's or the transport's, no handler runs on
  that wake; when camera and transport are ready, the transport is not dispatched.
\<close>

theorem wake_skips_ready_source:
  "loop_wake fd_of 1 [0, POLLIN, 0] = []
   \<and> loop_wake fd_of 1 [0, 0, POLLIN] = []
   \<and> loop_wake fd_of 2 [POLLIN, 0, POLLIN] = [Handle_read Camera]"
  by (simp add: loop_wake_def loop_desc_def pollables_def POLLIN_def POLLPRI_def POLLOUT_def)

end
